theory Spec2Isabelle
  imports Main
begin

text \<open>
  The migration protocol engine: the constructors of a source and of a sink session and
  their \<^verbatim>\<open>Do\<close> routines. A run is a function of the session and of the answers of its
  collaborators (the entropy source, the lookup of the checkpoint tool, the all-connected
  signal, the transfer callbacks, the control channel, the dialler); it gives what \<^verbatim>\<open>Do\<close>
  returns and the trace of what it did.
\<close>

section \<open>Errors\<close>

text \<open>
  A Go \<^verbatim>\<open>error\<close> value that is not nil. \<open>ErrorString\<close> is what \<^verbatim>\<open>fmt.Errorf\<close>
  builds from a format without \<^verbatim>\<open>%w\<close>, \<open>WrapError p e\<close> what
  \<^verbatim>\<open>fmt.Errorf(p + "%w", e)\<close> builds, and \<open>CloseError code m\<close> is a
  \<^verbatim>\<open>*websocket.CloseError\<close> with the close code \<open>code\<close>, \<open>m\<close> being the text its
  \<^verbatim>\<open>Error\<close> method renders. A nil error is \<open>None\<close> of \<open>goerror option\<close>.
\<close>

datatype goerror =
    ErrorString string
  | CloseError nat string
  | WrapError string goerror

fun Error :: "goerror \<Rightarrow> string" where
  "Error (ErrorString m) = m"
| "Error (CloseError code m) = m"
| "Error (WrapError p e) = p @ Error e"

text \<open>\<^verbatim>\<open>errors.As(err, &wsCloseErr)\<close> with \<^verbatim>\<open>wsCloseErr *websocket.CloseError\<close>: walks the
  chain of wrapped errors and looks at the type only, not at the close code.\<close>

fun errors_As_CloseError :: "goerror \<Rightarrow> bool" where
  "errors_As_CloseError (ErrorString m) = False"
| "errors_As_CloseError (CloseError code m) = True"
| "errors_As_CloseError (WrapError p e) = errors_As_CloseError e"

text \<open>The close codes of RFC 6455 that the websocket library names
  \<^verbatim>\<open>CloseNormalClosure\<close>, \<^verbatim>\<open>CloseGoingAway\<close> and \<^verbatim>\<open>CloseAbnormalClosure\<close>.\<close>

definition CloseNormalClosure :: nat where
  "CloseNormalClosure = 1000"

definition CloseGoingAway :: nat where
  "CloseGoingAway = 1001"

definition CloseAbnormalClosure :: nat where
  "CloseAbnormalClosure = 1006"

text \<open>The words of the spec, not the code: "a clean/expected remote-closed-connection
  indication" is a close error, possibly wrapped, whose code says that the peer closed
  normally or went away. The code has no such test; it is here to be compared with
  \<open>errors_As_CloseError\<close>.\<close>

fun spec_cleanClose :: "goerror \<Rightarrow> bool" where
  "spec_cleanClose (ErrorString m) = False"
| "spec_cleanClose (CloseError code m) = (code = CloseNormalClosure \<or> code = CloseGoingAway)"
| "spec_cleanClose (WrapError p e) = spec_cleanClose e"

text \<open>Modelled from the spec: the sentinel error \<^verbatim>\<open>migration.ErrNoLiveMigrationSource\<close>,
  declared in a package that is not among the files verified here. The spec names it
  "no live migration support at source".\<close>

definition ErrNoLiveMigrationSource :: goerror where
  "ErrNoLiveMigrationSource = ErrorString ''no live migration support at source''"

text \<open>Modelled from the spec: the sentinel error \<^verbatim>\<open>migration.ErrNoLiveMigrationTarget\<close>,
  the counterpart on the target side.\<close>

definition ErrNoLiveMigrationTarget :: goerror where
  "ErrNoLiveMigrationTarget = ErrorString ''no live migration support at target''"

section \<open>Data model\<close>

type_synonym conn = nat

datatype instancetype = Container | VM

record Instance =
  InstName :: string
  InstProject :: string
  InstType :: instancetype
  IsRunning :: bool

text \<open>The per-side channel state. A connection that is not established (a nil
  \<^verbatim>\<open>*websocket.Conn\<close>) is \<open>None\<close>, and so is an instance handle that was never set.\<close>

record migrationFields =
  controlSecret :: string
  controlConn :: "conn option"
  criuSecret :: string
  criuConn :: "conn option"
  fsSecret :: string
  fsConn :: "conn option"
  live :: bool
  instanceOnly :: bool
  instance' :: "Instance option"
  allowInconsistent :: bool

text \<open>The zero value of the struct.\<close>

definition zeroFields :: migrationFields where
  "zeroFields = \<lparr>controlSecret = [], controlConn = None, criuSecret = [], criuConn = None,
     fsSecret = [], fsConn = None, live = False, instanceOnly = False, instance' = None,
     allowInconsistent = False\<rparr>"

text \<open>A \<^verbatim>\<open>chan struct{}\<close>: nil, or made.\<close>

datatype chan = NilChan | MadeChan

record migrationSourceWs =
  migFields :: migrationFields
  allConnected :: chan

record MigrationControl =
  Success :: "bool option"
  Message :: "string option"

text \<open>The arguments of the transfer callbacks. A bound method value such as \<^verbatim>\<open>s.send\<close> is
  represented by the per-side state it is bound to.\<close>

record MigrateArgs =
  ControlSend :: migrationFields
  ControlReceive :: migrationFields
  LiveConn :: "conn option"
  DataConn :: "conn option"
  Snapshots :: bool
  Live :: bool

record MigrateSendArgs = MigrateArgs +
  AllowInconsistent :: bool

record MigrateReceiveArgs = MigrateArgs +
  InstanceOperation :: nat
  Refresh :: bool

section \<open>Effects\<close>

text \<open>What a run does to the outside, in order. Durations are in milliseconds.\<close>

datatype event =
    LogInfo string
  | LogError string goerror
  | Waited nat
  | CallRandomCryptoString
  | CallLookPath string
  | CallSetOperation Instance nat
  | CallMigrateSend Instance MigrateSendArgs
  | CallMigrateReceive Instance MigrateReceiveArgs
  | CallProtoSend conn MigrationControl
  | CallSetReadDeadline conn nat
  | CallReadMessage conn nat
  | Dial string
  | CloseConn conn

text \<open>The collaborators, as the answers they give.
  \<open>RandomCryptoString env i\<close> is the result of the \<open>i\<close>-th call of
  \<^verbatim>\<open>shared.RandomCryptoString\<close> in a constructor; \<open>signalAfter\<close> is the time after which
  the all-connected channel is signalled (\<open>None\<close>: never), \<open>signalWinsTie\<close> what the
  \<^verbatim>\<open>select\<close> picks when the signal and the timer are ready together; \<open>readAfter\<close> is the
  time after which the control channel has something to read (\<open>None\<close>: never).\<close>

record env =
  RandomCryptoString :: "nat \<Rightarrow> goerror + string"
  LookPath :: "string \<Rightarrow> goerror + string"
  signalAfter :: "nat option"
  signalWinsTie :: bool
  MigrateSend :: "Instance \<Rightarrow> MigrateSendArgs \<Rightarrow> goerror option"
  MigrateReceive :: "Instance \<Rightarrow> MigrateReceiveArgs \<Rightarrow> goerror option"
  ProtoSend :: "conn \<Rightarrow> MigrationControl \<Rightarrow> goerror option"
  readAfter :: "nat option"
  connectWithSecret :: "string \<Rightarrow> goerror + conn"

datatype outcome = Returned "goerror option" | Panicked

datatype waited = Connected nat | TimedOut

text \<open>The \<^verbatim>\<open>select\<close> over \<^verbatim>\<open>time.After(bound)\<close> and the all-connected channel. A nil
  channel is never ready.\<close>

definition select_allConnected :: "env \<Rightarrow> chan \<Rightarrow> nat \<Rightarrow> waited" where
  "select_allConnected e ch bound =
     (case ch of
        NilChan \<Rightarrow> TimedOut
      | MadeChan \<Rightarrow>
          (case signalAfter e of
             None \<Rightarrow> TimedOut
           | Some t \<Rightarrow>
               if t < bound \<or> (t = bound \<and> signalWinsTie e) then Connected t
               else TimedOut))"

text \<open>Closing a connection that may be nil.\<close>

definition close_conn :: "conn option \<Rightarrow> event list" where
  "close_conn c = (case c of None \<Rightarrow> [] | Some x \<Rightarrow> [CloseConn x])"

text \<open>Modelled from the spec: \<^verbatim>\<open>migrationFields.disconnect\<close>, a method that is not among
  the files verified here. The spec has it close all owned channels.\<close>

definition disconnect :: "migrationFields \<Rightarrow> event list" where
  "disconnect f = close_conn (controlConn f) @ close_conn (fsConn f) @ close_conn (criuConn f)"

text \<open>Modelled from the spec: \<^verbatim>\<open>migrationFields.send\<close>, a method that is not among the files
  verified here. The spec has it send a message on the control channel and return an
  error or nil; with no control channel there is nothing to send on, and it fails (the
  spec does not give the text of that error, and nothing below depends on it).\<close>

definition send :: "env \<Rightarrow> migrationFields \<Rightarrow> MigrationControl \<Rightarrow> goerror option \<times> event list" where
  "send e f m =
     (case controlConn f of
        None \<Rightarrow> (Some (ErrorString ''Control connection not initialized''), [])
      | Some c \<Rightarrow> (ProtoSend e c m, [CallProtoSend c m]))"

text \<open>A read under a deadline \<open>bound\<close> from now: it returns when there is something to read
  or at the deadline, whichever is first.\<close>

definition read_elapsed :: "env \<Rightarrow> nat \<Rightarrow> nat" where
  "read_elapsed e bound = (case readAfter e of None \<Rightarrow> bound | Some t \<Rightarrow> min t bound)"

section \<open>Migration source\<close>

definition newMigrationSource ::
  "env \<Rightarrow> Instance \<Rightarrow> bool \<Rightarrow> bool \<Rightarrow> bool \<Rightarrow> (goerror + migrationSourceWs) \<times> event list" where
  "newMigrationSource e inst stateful instanceOnly0 allowInconsistent0 =
     (let ret = \<lparr>migFields = zeroFields\<lparr>instance' := Some inst, allowInconsistent := allowInconsistent0\<rparr>,
                 allConnected = MadeChan\<rparr>;
          ret = ret\<lparr>migFields := (migFields ret)\<lparr>instanceOnly := instanceOnly0\<rparr>\<rparr>
      in case RandomCryptoString e 0 of
           Inl err \<Rightarrow> (Inl err, [CallRandomCryptoString])
         | Inr s0 \<Rightarrow>
        (let ret = ret\<lparr>migFields := (migFields ret)\<lparr>controlSecret := s0\<rparr>\<rparr>
         in case RandomCryptoString e 1 of
              Inl err \<Rightarrow> (Inl err, [CallRandomCryptoString, CallRandomCryptoString])
            | Inr s1 \<Rightarrow>
           (let ret = ret\<lparr>migFields := (migFields ret)\<lparr>fsSecret := s1\<rparr>\<rparr>;
                tr = [CallRandomCryptoString, CallRandomCryptoString]
            in if stateful \<and> IsRunning inst then
                 (let ret = ret\<lparr>migFields := (migFields ret)\<lparr>live := True\<rparr>\<rparr>
                  in if InstType inst = Container then
                       (case LookPath e ''criu'' of
                          Inl err \<Rightarrow> (Inl ErrNoLiveMigrationSource, tr @ [CallLookPath ''criu''])
                        | Inr p \<Rightarrow>
                            (case RandomCryptoString e 2 of
                               Inl err \<Rightarrow>
                                 (Inl err, tr @ [CallLookPath ''criu'', CallRandomCryptoString])
                             | Inr s2 \<Rightarrow>
                                 (Inr (ret\<lparr>migFields := (migFields ret)\<lparr>criuSecret := s2\<rparr>\<rparr>),
                                  tr @ [CallLookPath ''criu'', CallRandomCryptoString])))
                     else (Inr ret, tr))
               else (Inr ret, tr))))"

definition sourceSendArgs :: "migrationSourceWs \<Rightarrow> MigrateSendArgs" where
  "sourceSendArgs s =
     \<lparr>ControlSend = migFields s,
      ControlReceive = migFields s,
      LiveConn = criuConn (migFields s),
      DataConn = fsConn (migFields s),
      Snapshots = (\<not> instanceOnly (migFields s)),
      Live = live (migFields s),
      AllowInconsistent = allowInconsistent (migFields s)\<rparr>"

text \<open>The block run when \<^verbatim>\<open>MigrateSend\<close> returned the non-nil error \<open>err\<close>, up to the
  \<^verbatim>\<open>return\<close>: the outcome and the events, the deferred calls not included.\<close>

definition sourceFailed :: "env \<Rightarrow> migrationSourceWs \<Rightarrow> goerror \<Rightarrow> outcome \<times> event list" where
  "sourceFailed e s err =
     (let tr = [LogError ''Failed migration on source'' err];
          ret = Returned (Some (WrapError ''Failed migration on source: '' err))
      in if \<not> errors_As_CloseError err then
           (let msg = \<lparr>Success = Some (Some err = None), Message = Some (Error err)\<rparr>
            in case send e (migFields s) msg of
                 (Some sendErr, evs) \<Rightarrow>
                   (ret, tr @ evs @ [LogError ''Failed sending control error to target'' sendErr])
               | (None, evs) \<Rightarrow>
                   (case controlConn (migFields s) of
                      None \<Rightarrow> (Panicked, tr @ evs)
                    | Some c \<Rightarrow>
                        (ret, tr @ evs @
                           [CallSetReadDeadline c 5000, CallReadMessage c (read_elapsed e 5000)])))
         else (ret, tr))"

definition migrationSourceWs_Do :: "env \<Rightarrow> migrationSourceWs \<Rightarrow> nat \<Rightarrow> outcome \<times> event list" where
  "migrationSourceWs_Do e s migrateOp =
     (case instance' (migFields s) of
        None \<Rightarrow> (Panicked, [])
      | Some inst \<Rightarrow>
          (let tr = [LogInfo ''Waiting for migration channel connections on source'']
           in case select_allConnected e (allConnected s) 10000 of
                TimedOut \<Rightarrow>
                  (Returned (Some (ErrorString ''Timed out waiting for migration connections'')),
                   tr @ [Waited 10000])
              | Connected t \<Rightarrow>
                  (let tr = tr @ [Waited t, LogInfo ''Migration channels connected on source''];
                       deferred = disconnect (migFields s) @
                                  [LogInfo ''Migration channels disconnected on source''];
                       args = sourceSendArgs s;
                       tr = tr @ [CallSetOperation inst migrateOp, CallMigrateSend inst args]
                   in case MigrateSend e inst args of
                        None \<Rightarrow> (Returned None, tr @ deferred)
                      | Some err \<Rightarrow>
                          (case sourceFailed e s err of
                             (r, evs) \<Rightarrow> (r, tr @ evs @ deferred)))))"

section \<open>Migration sink\<close>

text \<open>The fields of \<^verbatim>\<open>MigrationSinkArgs\<close> that the constructor reads, \<open>args_F\<close> for
  \<^verbatim>\<open>args.F\<close>. \<^verbatim>\<open>Secrets\<close> is a \<^verbatim>\<open>map[string]string\<close>.\<close>

record MigrationSinkArgs =
  args_URL :: string
  args_Dialer :: nat
  args_Instance :: Instance
  args_InstanceOnly :: bool
  args_Secrets :: "string \<rightharpoonup> string"
  args_Push :: bool
  args_Live :: bool
  args_Refresh :: bool

record migrationSink =
  src :: migrationFields
  dest :: migrationFields
  url :: string
  dialer :: nat
  allConnected' :: chan
  push :: bool
  refresh :: bool

text \<open>The push branch of the constructor: the secrets of \<open>dest\<close> are generated.\<close>

definition newMigrationSink_push ::
  "env \<Rightarrow> MigrationSinkArgs \<Rightarrow> migrationSink \<Rightarrow> (goerror + migrationSink) \<times> event list" where
  "newMigrationSink_push e args sink =
     (case RandomCryptoString e 0 of
        Inl err \<Rightarrow> (Inl err, [CallRandomCryptoString])
      | Inr s0 \<Rightarrow>
     (let sink = sink\<lparr>dest := (dest sink)\<lparr>controlSecret := s0\<rparr>\<rparr>
      in case RandomCryptoString e 1 of
           Inl err \<Rightarrow> (Inl err, [CallRandomCryptoString, CallRandomCryptoString])
         | Inr s1 \<Rightarrow>
        (let sink = sink\<lparr>dest := (dest sink)\<lparr>fsSecret := s1\<rparr>\<rparr>;
             sink = sink\<lparr>dest := (dest sink)\<lparr>live := args_Live args\<rparr>\<rparr>;
             tr = [CallRandomCryptoString, CallRandomCryptoString]
         in if live (dest sink) then
              (case RandomCryptoString e 2 of
                 Inl err \<Rightarrow> (Inl err, tr @ [CallRandomCryptoString])
               | Inr s2 \<Rightarrow>
                   (Inr (sink\<lparr>dest := (dest sink)\<lparr>criuSecret := s2\<rparr>\<rparr>),
                    tr @ [CallRandomCryptoString]))
            else (Inr sink, tr))))"

text \<open>The pull branch: the secrets of \<open>src\<close> are read from the mapping. A key that is
  absent reads as the empty string and \<open>ok = false\<close>.\<close>

definition newMigrationSink_pull ::
  "MigrationSinkArgs \<Rightarrow> migrationSink \<Rightarrow> (goerror + migrationSink) \<times> event list" where
  "newMigrationSink_pull args sink =
     (case args_Secrets args ''control'' of
        None \<Rightarrow> (Inl (ErrorString ''Missing control secret''), [])
      | Some cs \<Rightarrow>
     (let sink = sink\<lparr>src := (src sink)\<lparr>controlSecret := cs\<rparr>\<rparr>
      in case args_Secrets args ''fs'' of
           None \<Rightarrow> (Inl (ErrorString ''Missing fs secret''), [])
         | Some fs \<Rightarrow>
        (let sink = sink\<lparr>src := (src sink)\<lparr>fsSecret := fs\<rparr>\<rparr>;
             ok = (args_Secrets args ''criu'' \<noteq> None);
             sink = sink\<lparr>src := (src sink)\<lparr>criuSecret :=
                      (case args_Secrets args ''criu'' of None \<Rightarrow> [] | Some v \<Rightarrow> v)\<rparr>\<rparr>;
             sink = sink\<lparr>src := (src sink)\<lparr>live := (ok \<or> args_Live args)\<rparr>\<rparr>
         in (Inr sink, []))))"

text \<open>The constructor. \<^verbatim>\<open>sink.src.instance\<close> is \<^verbatim>\<open>args.Instance\<close>, stored in the first
  statement and not assigned again, so the type check reads it from \<open>args\<close>.\<close>

definition newMigrationSink ::
  "env \<Rightarrow> MigrationSinkArgs \<Rightarrow> (goerror + migrationSink) \<times> event list" where
  "newMigrationSink e args =
     (let sink = \<lparr>src = zeroFields\<lparr>instance' := Some (args_Instance args),
                                      instanceOnly := args_InstanceOnly args\<rparr>,
                  dest = zeroFields\<lparr>instanceOnly := args_InstanceOnly args\<rparr>,
                  url = args_URL args,
                  dialer = args_Dialer args,
                  allConnected' = NilChan,
                  push = args_Push args,
                  refresh = args_Refresh args\<rparr>;
          sink = (if push sink then sink\<lparr>allConnected' := MadeChan\<rparr> else sink)
      in case (if push sink then newMigrationSink_push e args sink
               else newMigrationSink_pull args sink) of
           (Inl err, tr) \<Rightarrow> (Inl err, tr)
         | (Inr sink, tr) \<Rightarrow>
             if InstType (args_Instance args) = Container then
               (let err = LookPath e ''criu'';
                    tr = tr @ [CallLookPath ''criu'']
                in if push sink \<and> live (dest sink) \<and> isl err then
                     (Inl ErrNoLiveMigrationTarget, tr)
                   else if live (src sink) \<and> isl err then
                     (Inl ErrNoLiveMigrationTarget, tr)
                   else (Inr sink, tr))
             else (Inr sink, tr))"

text \<open>Modelled from the spec: \<^verbatim>\<open>migrationFields.sendControl\<close>, a method that is not among
  the files verified here. The spec has it send a control message with
  \<open>success = false\<close> and the error on the control channel that is already open.\<close>

definition sendControl :: "migrationFields \<Rightarrow> goerror \<Rightarrow> event list" where
  "sendControl f err =
     (case controlConn f of
        None \<Rightarrow> []
      | Some c \<Rightarrow> [CallProtoSend c \<lparr>Success = Some False, Message = Some (Error err)\<rparr>])"

definition sinkReceiveArgs :: "migrationSink \<Rightarrow> bool \<Rightarrow> nat \<Rightarrow> MigrateReceiveArgs" where
  "sinkReceiveArgs c live0 instOp =
     (let receiver = (if push c then dest c else src c);
          sender = (if push c then dest c else src c);
          liveConn = (if push c then criuConn (dest c) else criuConn (src c));
          dataConn = (if push c then fsConn (dest c) else fsConn (src c))
      in \<lparr>ControlSend = sender,
          ControlReceive = receiver,
          LiveConn = liveConn,
          DataConn = dataConn,
          Snapshots = (\<not> instanceOnly (dest c)),
          Live = live0,
          InstanceOperation = instOp,
          Refresh = refresh c\<rparr>)"

text \<open>From "Migration channels connected on target" to the \<^verbatim>\<open>return\<close>, with the log line
  deferred there.\<close>

definition sinkReceive ::
  "env \<Rightarrow> migrationSink \<Rightarrow> Instance \<Rightarrow> bool \<Rightarrow> nat \<Rightarrow> outcome \<times> event list" where
  "sinkReceive e c inst live0 instOp =
     (let args = sinkReceiveArgs c live0 instOp;
          tr = [LogInfo ''Migration channels connected on target'', CallMigrateReceive inst args];
          deferred = [LogInfo ''Migration channels disconnected on target'']
      in case MigrateReceive e inst args of
           Some err \<Rightarrow>
             (Returned (Some (WrapError ''Failed migration on target: '' err)),
              tr @ [LogError ''Failed migration on target'' err] @ deferred)
         | None \<Rightarrow> (Returned None, tr @ deferred))"

text \<open>The pull branch of \<^verbatim>\<open>Do\<close>. The method \<^verbatim>\<open>connectWithSecret\<close> is a collaborator: it
  gives a connection, or an error and then a nil connection.\<close>

definition sinkPull ::
  "env \<Rightarrow> migrationSink \<Rightarrow> Instance \<Rightarrow> bool \<Rightarrow> nat \<Rightarrow> outcome \<times> event list \<times> migrationSink" where
  "sinkPull e c inst live0 instOp =
     (case connectWithSecret e (controlSecret (src c)) of
        Inl err \<Rightarrow>
          (Returned (Some (WrapError ''Failed connecting control sink socket: '' err)),
           [Dial (controlSecret (src c))],
           c\<lparr>src := (src c)\<lparr>controlConn := None\<rparr>\<rparr>)
      | Inr cc \<Rightarrow>
     (let c = c\<lparr>src := (src c)\<lparr>controlConn := Some cc\<rparr>\<rparr>;
          tr = [Dial (controlSecret (src c))]
      in case connectWithSecret e (fsSecret (src c)) of
           Inl err \<Rightarrow>
             (let c = c\<lparr>src := (src c)\<lparr>fsConn := None\<rparr>\<rparr>;
                  err = WrapError ''Failed connecting filesystem sink socket: '' err
              in (Returned (Some err),
                  tr @ [Dial (fsSecret (src c))] @ sendControl (src c) err @ disconnect (src c),
                  c))
         | Inr fc \<Rightarrow>
        (let c = c\<lparr>src := (src c)\<lparr>fsConn := Some fc\<rparr>\<rparr>;
             tr = tr @ [Dial (fsSecret (src c))]
         in if live (src c) \<and> InstType inst = Container then
              (case connectWithSecret e (criuSecret (src c)) of
                 Inl err \<Rightarrow>
                   (let c = c\<lparr>src := (src c)\<lparr>criuConn := None\<rparr>\<rparr>;
                        err = WrapError ''Failed connecting CRIU sink socket: '' err
                    in (Returned (Some err),
                        tr @ [Dial (criuSecret (src c))] @ sendControl (src c) err
                           @ disconnect (src c),
                        c))
               | Inr lc \<Rightarrow>
                   (let c = c\<lparr>src := (src c)\<lparr>criuConn := Some lc\<rparr>\<rparr>;
                        tr = tr @ [Dial (criuSecret (src c))]
                    in case sinkReceive e c inst live0 instOp of
                         (r, evs) \<Rightarrow> (r, tr @ evs @ disconnect (src c), c)))
            else
              (case sinkReceive e c inst live0 instOp of
                 (r, evs) \<Rightarrow> (r, tr @ evs @ disconnect (src c), c)))))"

definition migrationSink_Do ::
  "env \<Rightarrow> migrationSink \<Rightarrow> nat \<Rightarrow> outcome \<times> event list \<times> migrationSink" where
  "migrationSink_Do e c instOp =
     (case instance' (src c) of
        None \<Rightarrow> (Panicked, [], c)
      | Some inst \<Rightarrow>
          (let live0 = (if push c then live (dest c) else live (src c));
               tr = [LogInfo ''Waiting for migration channel connections on target'']
           in if push c then
                (case select_allConnected e (allConnected' c) 10000 of
                   TimedOut \<Rightarrow>
                     (Returned (Some (ErrorString ''Timed out waiting for migration connections'')),
                      tr @ [Waited 10000], c)
                 | Connected t \<Rightarrow>
                     (case sinkReceive e c inst live0 instOp of
                        (r, evs) \<Rightarrow> (r, tr @ [Waited t] @ evs @ disconnect (dest c), c)))
              else
                (case sinkPull e c inst live0 instOp of
                   (r, evs, c') \<Rightarrow> (r, tr @ evs, c'))))"

section \<open>Reading a trace\<close>

fun isProtoSend :: "event \<Rightarrow> bool" where
  "isProtoSend (CallProtoSend c m) = True"
| "isProtoSend ev = False"

fun isRead :: "event \<Rightarrow> bool" where
  "isRead (CallSetReadDeadline c d) = True"
| "isRead (CallReadMessage c d) = True"
| "isRead ev = False"

fun isInstanceCall :: "event \<Rightarrow> bool" where
  "isInstanceCall (CallSetOperation i p) = True"
| "isInstanceCall (CallMigrateSend i a) = True"
| "isInstanceCall (CallMigrateReceive i a) = True"
| "isInstanceCall ev = False"

fun isChannelEvent :: "event \<Rightarrow> bool" where
  "isChannelEvent (Dial k) = True"
| "isChannelEvent (CallProtoSend c m) = True"
| "isChannelEvent ev = False"

text \<open>The channels a per-side state holds.\<close>

definition owned :: "migrationFields \<Rightarrow> conn set" where
  "owned f = set_option (controlConn f) \<union> set_option (fsConn f) \<union> set_option (criuConn f)"

section \<open>Concrete sessions\<close>

definition ex_inst :: Instance where
  "ex_inst = \<lparr>InstName = ''c1'', InstProject = ''default'', InstType = Container,
     IsRunning = True\<rparr>"

definition ex_stopped :: Instance where
  "ex_stopped = \<lparr>InstName = ''c1'', InstProject = ''default'', InstType = Container,
     IsRunning = False\<rparr>"

definition ex_random :: "nat \<Rightarrow> goerror + string" where
  "ex_random i = Inr (if i = 0 then ''s0'' else if i = 1 then ''s1'' else ''s2'')"

definition ex_no_entropy :: "nat \<Rightarrow> goerror + string" where
  "ex_no_entropy i = Inl (ErrorString ''entropy source failed'')"

definition ex_no_criu :: "string \<Rightarrow> goerror + string" where
  "ex_no_criu p = Inl (ErrorString ''executable file not found in $PATH'')"

definition ex_send_fails :: "Instance \<Rightarrow> MigrateSendArgs \<Rightarrow> goerror option" where
  "ex_send_fails i a = Some (ErrorString ''boom'')"

definition ex_send_closed :: "Instance \<Rightarrow> MigrateSendArgs \<Rightarrow> goerror option" where
  "ex_send_closed i a = Some (CloseError 1000 ''websocket: close 1000 (normal)'')"

definition ex_abnormal :: goerror where
  "ex_abnormal = CloseError 1006 ''websocket: close 1006 (abnormal closure): unexpected EOF''"

definition ex_send_abnormal :: "Instance \<Rightarrow> MigrateSendArgs \<Rightarrow> goerror option" where
  "ex_send_abnormal i a = Some ex_abnormal"

definition ex_send_ok :: "Instance \<Rightarrow> MigrateSendArgs \<Rightarrow> goerror option" where
  "ex_send_ok i a = None"

definition ex_receive_ok :: "Instance \<Rightarrow> MigrateReceiveArgs \<Rightarrow> goerror option" where
  "ex_receive_ok i a = None"

definition ex_proto_send_ok :: "conn \<Rightarrow> MigrationControl \<Rightarrow> goerror option" where
  "ex_proto_send_ok c m = None"

text \<open>Dialers: every secret answers; only the control secret answers; none does.\<close>

definition ex_dial :: "string \<Rightarrow> goerror + conn" where
  "ex_dial k = (if k = ''c'' then Inr 1 else if k = ''f'' then Inr 2 else Inr 3)"

definition ex_dial_control_only :: "string \<Rightarrow> goerror + conn" where
  "ex_dial_control_only k = (if k = ''c'' then Inr 1 else Inl (ErrorString ''bad handshake''))"

definition ex_dial_no_criu :: "string \<Rightarrow> goerror + conn" where
  "ex_dial_no_criu k =
     (if k = ''c'' then Inr 1 else if k = ''f'' then Inr 2 else Inl (ErrorString ''bad handshake''))"

definition ex_dial_none :: "string \<Rightarrow> goerror + conn" where
  "ex_dial_none k = Inl (ErrorString ''bad handshake'')"

text \<open>A host without the checkpoint tool, on which the channels connect after 3 ms and the
  transfer fails with "boom".\<close>

definition ex_env :: env where
  "ex_env = \<lparr>RandomCryptoString = ex_random, LookPath = ex_no_criu, signalAfter = Some 3,
     signalWinsTie = False, MigrateSend = ex_send_fails, MigrateReceive = ex_receive_ok,
     ProtoSend = ex_proto_send_ok, readAfter = None, connectWithSecret = ex_dial\<rparr>"

definition ex_env_closed :: env where
  "ex_env_closed = ex_env\<lparr>MigrateSend := ex_send_closed\<rparr>"

definition ex_env_abnormal :: env where
  "ex_env_abnormal = ex_env\<lparr>MigrateSend := ex_send_abnormal\<rparr>"

definition ex_env_ok :: env where
  "ex_env_ok = ex_env\<lparr>MigrateSend := ex_send_ok\<rparr>"

definition ex_have_criu :: "string \<Rightarrow> goerror + string" where
  "ex_have_criu p = Inr ''/usr/sbin/criu''"

definition ex_env_criu :: env where
  "ex_env_criu = ex_env\<lparr>LookPath := ex_have_criu\<rparr>"

definition ex_env_never :: env where
  "ex_env_never = ex_env\<lparr>signalAfter := None\<rparr>"

definition ex_env_no_entropy :: env where
  "ex_env_no_entropy = ex_env\<lparr>RandomCryptoString := ex_no_entropy\<rparr>"

definition ex_env_control_only :: env where
  "ex_env_control_only = ex_env\<lparr>connectWithSecret := ex_dial_control_only\<rparr>"

definition ex_env_no_criu_dial :: env where
  "ex_env_no_criu_dial = ex_env\<lparr>connectWithSecret := ex_dial_no_criu\<rparr>"

definition ex_env_no_dial :: env where
  "ex_env_no_dial = ex_env\<lparr>connectWithSecret := ex_dial_none\<rparr>"

text \<open>A source session with both channels connected, and one on which only the control
  channel has connected.\<close>

definition ex_fields :: migrationFields where
  "ex_fields = \<lparr>controlSecret = ''c'', controlConn = Some 1, criuSecret = [], criuConn = None,
     fsSecret = ''f'', fsConn = Some 2, live = False, instanceOnly = False,
     instance' = Some ex_inst, allowInconsistent = False\<rparr>"

definition ex_source :: migrationSourceWs where
  "ex_source = \<lparr>migFields = ex_fields, allConnected = MadeChan\<rparr>"

definition ex_source_partial :: migrationSourceWs where
  "ex_source_partial = \<lparr>migFields = ex_fields\<lparr>fsConn := None\<rparr>, allConnected = MadeChan\<rparr>"

text \<open>A pull-mode sink as the constructor leaves it (no channel yet), live and not live,
  and a push-mode sink whose \<open>dest\<close> channels have connected.\<close>

definition ex_src_fields :: migrationFields where
  "ex_src_fields = \<lparr>controlSecret = ''c'', controlConn = None, criuSecret = ''l'',
     criuConn = None, fsSecret = ''f'', fsConn = None, live = True, instanceOnly = False,
     instance' = Some ex_inst, allowInconsistent = False\<rparr>"

definition ex_sink_pull :: migrationSink where
  "ex_sink_pull = \<lparr>src = ex_src_fields, dest = zeroFields, url = ''https://host/op'',
     dialer = 0, allConnected' = NilChan, push = False, refresh = True\<rparr>"

definition ex_sink_pull_cold :: migrationSink where
  "ex_sink_pull_cold = ex_sink_pull\<lparr>src := ex_src_fields\<lparr>live := False\<rparr>\<rparr>"

definition ex_sink_push :: migrationSink where
  "ex_sink_push = \<lparr>src = zeroFields\<lparr>instance' := Some ex_inst\<rparr>,
     dest = zeroFields\<lparr>controlSecret := ''c'', controlConn := Some 1, fsSecret := ''f'',
              fsConn := Some 2, criuSecret := ''l'', criuConn := Some 3, live := True\<rparr>,
     url = [], dialer = 0, allConnected' = MadeChan, push = True, refresh = False\<rparr>"

text \<open>Construction requests for a sink.\<close>

definition ex_args_pull :: MigrationSinkArgs where
  "ex_args_pull = \<lparr>args_URL = ''https://host/op'', args_Dialer = 0, args_Instance = ex_inst,
     args_InstanceOnly = False, args_Secrets = [''control'' \<mapsto> ''c'', ''fs'' \<mapsto> ''f''],
     args_Push = False, args_Live = True, args_Refresh = False\<rparr>"

definition ex_args_pull_cold :: MigrationSinkArgs where
  "ex_args_pull_cold = ex_args_pull\<lparr>args_Live := False\<rparr>"

definition ex_args_pull_no_secrets :: MigrationSinkArgs where
  "ex_args_pull_no_secrets = ex_args_pull\<lparr>args_Secrets := Map.empty\<rparr>"

definition ex_args_pull_no_fs :: MigrationSinkArgs where
  "ex_args_pull_no_fs = ex_args_pull\<lparr>args_Secrets := [''control'' \<mapsto> ''c'']\<rparr>"

definition ex_args_push :: MigrationSinkArgs where
  "ex_args_push = ex_args_pull\<lparr>args_Secrets := Map.empty, args_Push := True\<rparr>"

section \<open>Facts about traces\<close>

lemma filter_close_conn [simp]:
  "filter isProtoSend (close_conn c) = []"
  "filter isRead (close_conn c) = []"
  "filter isInstanceCall (close_conn c) = []"
  "filter isChannelEvent (close_conn c) = []"
  by (simp_all add: close_conn_def split: option.splits)

lemma filter_disconnect [simp]:
  "filter isProtoSend (disconnect f) = []"
  "filter isRead (disconnect f) = []"
  "filter isInstanceCall (disconnect f) = []"
  "filter isChannelEvent (disconnect f) = []"
  by (simp_all add: disconnect_def)

lemma owned_closed: "x \<in> owned f \<Longrightarrow> CloseConn x \<in> set (disconnect f)"
  by (auto simp add: owned_def disconnect_def close_conn_def split: option.splits)

lemma sinkReceive_filters [simp]:
  "filter isChannelEvent (snd (sinkReceive e c inst l p)) = []"
  "filter isInstanceCall (snd (sinkReceive e c inst l p)) =
     [CallMigrateReceive inst (sinkReceiveArgs c l p)]"
  by (simp_all add: sinkReceive_def Let_def split: option.splits)

lemmas ex_defs =
  ex_inst_def ex_stopped_def ex_random_def ex_no_entropy_def ex_no_criu_def ex_send_fails_def
  ex_send_closed_def ex_send_ok_def ex_receive_ok_def ex_proto_send_ok_def ex_dial_def
  ex_dial_control_only_def ex_dial_no_criu_def ex_dial_none_def ex_env_def ex_env_closed_def
  ex_env_ok_def ex_env_never_def ex_env_no_entropy_def ex_env_control_only_def
  ex_env_no_criu_dial_def ex_env_no_dial_def ex_fields_def ex_source_def ex_source_partial_def
  ex_src_fields_def ex_sink_pull_def ex_sink_pull_cold_def ex_sink_push_def ex_args_pull_def
  ex_args_pull_cold_def ex_args_pull_no_secrets_def ex_args_pull_no_fs_def ex_args_push_def
  ex_have_criu_def ex_env_criu_def ex_abnormal_def ex_send_abnormal_def ex_env_abnormal_def

section \<open>What the constructors establish\<close>

text \<open>A session that a constructor returns holds the instance it was given, and no channel
  yet.\<close>

lemma newMigrationSource_instance:
  "fst (newMigrationSource e inst stateful io ai) = Inr s \<Longrightarrow>
     instance' (migFields s) = Some inst \<and> owned (migFields s) = {} \<and>
     allConnected s = MadeChan"
  by (auto simp add: newMigrationSource_def Let_def zeroFields_def owned_def
      split: sum.splits if_splits)

lemma newMigrationSink_instance:
  "fst (newMigrationSink e args) = Inr c \<Longrightarrow>
     instance' (src c) = Some (args_Instance args) \<and> push c = args_Push args \<and>
     owned (src c) = {} \<and> owned (dest c) = {}"
  by (auto simp add: newMigrationSink_def newMigrationSink_pull_def newMigrationSink_push_def
        Let_def zeroFields_def owned_def
      split: sum.splits if_splits option.splits)

section \<open>The source session\<close>

text \<open>
  Every clean close is a close error, so what the code skips includes what the spec
  wants skipped.
\<close>

lemma spec_cleanClose_is_CloseError: "spec_cleanClose err \<Longrightarrow> errors_As_CloseError err"
  by (induction err) simp_all

text \<open>
  Claim C1, as amended. When the channels of a source session have connected and
  \<^verbatim>\<open>MigrateSend\<close> returns a non-nil error, \<^verbatim>\<open>Do\<close> sends exactly one message on the
  control channel, with \<open>success = false\<close> and the text of the error, unless the error is
  (or wraps) a websocket close error, of whatever close code, clean or abnormal: then
  nothing is sent.
\<close>

theorem source_notifies_unless_close_error:
  assumes "instance' (migFields s) = Some inst"
    and "select_allConnected e (allConnected s) 10000 = Connected t"
    and "MigrateSend e inst (sourceSendArgs s) = Some err"
    and "controlConn (migFields s) = Some c"
  shows "filter isProtoSend (snd (migrationSourceWs_Do e s migrateOp)) =
     (if errors_As_CloseError err then []
      else [CallProtoSend c \<lparr>Success = Some False, Message = Some (Error err)\<rparr>])"
  using assms
  by (simp add: migrationSourceWs_Do_def sourceFailed_def send_def Let_def split: option.splits)

theorem source_notifies_unless_close_error_witness:
  "filter isProtoSend (snd (migrationSourceWs_Do ex_env ex_source 7)) =
     [CallProtoSend 1 \<lparr>Success = Some False, Message = Some ''boom''\<rparr>]
   \<and> filter isProtoSend (snd (migrationSourceWs_Do ex_env_closed ex_source 7)) = []"
  using source_notifies_unless_close_error
          [of ex_source ex_inst ex_env 3 "ErrorString ''boom''" 1 7]
        source_notifies_unless_close_error
          [of ex_source ex_inst ex_env_closed 3
             "CloseError 1000 ''websocket: close 1000 (normal)''" 1 7]
  by (simp add: ex_defs sourceSendArgs_def select_allConnected_def)

text \<open>
  Claim C1 as it is written skips the notice for a clean or expected remote close only.
  The code skips it for every close error: when the transfer fails with an abnormal
  closure (code 1006), which is no clean close, nothing is sent to the peer.
\<close>

theorem source_abnormal_close_not_notified:
  "instance' (migFields ex_source) = Some ex_inst
   \<and> select_allConnected ex_env_abnormal (allConnected ex_source) 10000 = Connected 3
   \<and> controlConn (migFields ex_source) = Some 1
   \<and> MigrateSend ex_env_abnormal ex_inst (sourceSendArgs ex_source) = Some ex_abnormal
   \<and> ex_abnormal = CloseError CloseAbnormalClosure
                      ''websocket: close 1006 (abnormal closure): unexpected EOF''
   \<and> \<not> spec_cleanClose ex_abnormal
   \<and> filter isProtoSend (snd (migrationSourceWs_Do ex_env_abnormal ex_source 7)) = []
   \<and> fst (migrationSourceWs_Do ex_env_abnormal ex_source 7) =
       Returned (Some (WrapError ''Failed migration on source: '' ex_abnormal))"
  by (simp add: ex_defs migrationSourceWs_Do_def sourceFailed_def select_allConnected_def
        Let_def CloseAbnormalClosure_def CloseNormalClosure_def CloseGoingAway_def)

text \<open>
  Claim C2. When the failure notice has been sent without error, \<^verbatim>\<open>Do\<close> sets a read
  deadline of 5 seconds on the control channel and reads one message there, which takes
  at most 5 seconds; whatever the read gives, \<^verbatim>\<open>Do\<close> returns the error of the transfer
  wrapped with "Failed migration on source".
\<close>

theorem source_ack_wait_keeps_error:
  assumes "instance' (migFields s) = Some inst"
    and "select_allConnected e (allConnected s) 10000 = Connected t"
    and "MigrateSend e inst (sourceSendArgs s) = Some err"
    and "\<not> errors_As_CloseError err"
    and "fst (send e (migFields s) \<lparr>Success = Some False, Message = Some (Error err)\<rparr>) = None"
  shows "\<exists>c d. controlConn (migFields s) = Some c \<and> d \<le> 5000 \<and>
           filter isRead (snd (migrationSourceWs_Do e s migrateOp)) =
             [CallSetReadDeadline c 5000, CallReadMessage c d] \<and>
           (\<forall>ra. fst (migrationSourceWs_Do (e\<lparr>readAfter := ra\<rparr>) s migrateOp) =
              Returned (Some (WrapError ''Failed migration on source: '' err)))"
  using assms
  by (auto simp add: migrationSourceWs_Do_def sourceFailed_def send_def Let_def
        read_elapsed_def select_allConnected_def
      split: option.splits chan.splits if_splits)

theorem source_ack_wait_keeps_error_witness:
  "\<exists>c d. controlConn (migFields ex_source) = Some c \<and> d \<le> 5000 \<and>
     filter isRead (snd (migrationSourceWs_Do ex_env ex_source 7)) =
       [CallSetReadDeadline c 5000, CallReadMessage c d] \<and>
     (\<forall>ra. fst (migrationSourceWs_Do (ex_env\<lparr>readAfter := ra\<rparr>) ex_source 7) =
        Returned (Some (WrapError ''Failed migration on source: '' (ErrorString ''boom''))))"
proof -
  have h1: "instance' (migFields ex_source) = Some ex_inst"
    by (simp add: ex_defs)
  have h2: "select_allConnected ex_env (allConnected ex_source) 10000 = Connected 3"
    by (simp add: ex_defs select_allConnected_def)
  have h3: "MigrateSend ex_env ex_inst (sourceSendArgs ex_source) = Some (ErrorString ''boom'')"
    by (simp add: ex_defs)
  have h4: "\<not> errors_As_CloseError (ErrorString ''boom'')"
    by simp
  have h5: "fst (send ex_env (migFields ex_source)
              \<lparr>Success = Some False, Message = Some (Error (ErrorString ''boom''))\<rparr>) = None"
    by (simp add: ex_defs send_def)
  show ?thesis
    by (rule source_ack_wait_keeps_error [OF h1 h2 h3 h4 h5])
qed

text \<open>
  Claim C4. When the all-connected signal never fires, the source \<^verbatim>\<open>Do\<close> blocks for the
  10 seconds of its timer and returns the error "Timed out waiting for migration
  connections"; it has then neither marked the instance with the operation nor called
  \<^verbatim>\<open>MigrateSend\<close>. The sink \<^verbatim>\<open>Do\<close> does the same in push mode, and never calls
  \<^verbatim>\<open>MigrateReceive\<close>.
\<close>

theorem do_timeout_no_transfer:
  assumes "signalAfter e = None"
  shows "(instance' (migFields s) = Some inst \<longrightarrow>
            fst (migrationSourceWs_Do e s migrateOp) =
              Returned (Some (ErrorString ''Timed out waiting for migration connections'')) \<and>
            snd (migrationSourceWs_Do e s migrateOp) =
              [LogInfo ''Waiting for migration channel connections on source'', Waited 10000] \<and>
            filter isInstanceCall (snd (migrationSourceWs_Do e s migrateOp)) = [])
       \<and> (push c \<and> instance' (src c) = Some inst' \<longrightarrow>
            fst (migrationSink_Do e c instOp) =
              Returned (Some (ErrorString ''Timed out waiting for migration connections'')) \<and>
            fst (snd (migrationSink_Do e c instOp)) =
              [LogInfo ''Waiting for migration channel connections on target'', Waited 10000] \<and>
            filter isInstanceCall (fst (snd (migrationSink_Do e c instOp))) = [])"
  using assms
  by (simp add: migrationSourceWs_Do_def migrationSink_Do_def select_allConnected_def
      split: chan.splits)

theorem do_timeout_no_transfer_witness:
  "fst (migrationSourceWs_Do ex_env_never ex_source 7) =
     Returned (Some (ErrorString ''Timed out waiting for migration connections''))
   \<and> snd (migrationSourceWs_Do ex_env_never ex_source 7) =
     [LogInfo ''Waiting for migration channel connections on source'', Waited 10000]
   \<and> fst (migrationSink_Do ex_env_never ex_sink_push 9) =
     Returned (Some (ErrorString ''Timed out waiting for migration connections''))
   \<and> fst (snd (migrationSink_Do ex_env_never ex_sink_push 9)) =
     [LogInfo ''Waiting for migration channel connections on target'', Waited 10000]"
proof -
  have h: "signalAfter ex_env_never = None"
    by (simp add: ex_defs)
  have s: "instance' (migFields ex_source) = Some ex_inst"
    by (simp add: ex_defs)
  have k: "push ex_sink_push \<and> instance' (src ex_sink_push) = Some ex_inst"
    by (simp add: ex_defs)
  show ?thesis
    using do_timeout_no_transfer [OF h, of ex_source ex_inst 7 ex_sink_push ex_inst 9] s k
    by simp
qed

text \<open>
  Claim C8. On a source session with \<open>live = false\<close> and \<open>instanceOnly = false\<close> whose
  channels have connected, \<^verbatim>\<open>Do\<close> marks the instance with the operation and then calls
  \<^verbatim>\<open>MigrateSend\<close>, once, with \<open>Snapshots = true\<close> and \<open>Live = false\<close>; when that call
  returns nil, so does \<^verbatim>\<open>Do\<close>.
\<close>

theorem source_do_round_trip:
  assumes "instance' (migFields s) = Some inst"
    and "\<not> live (migFields s)"
    and "\<not> instanceOnly (migFields s)"
    and "select_allConnected e (allConnected s) 10000 = Connected t"
  shows "\<exists>args. filter isInstanceCall (snd (migrationSourceWs_Do e s migrateOp)) =
             [CallSetOperation inst migrateOp, CallMigrateSend inst args]
           \<and> Snapshots args \<and> \<not> Live args
           \<and> (MigrateSend e inst args = None \<longrightarrow>
                fst (migrationSourceWs_Do e s migrateOp) = Returned None)"
proof (intro exI conjI impI)
  show "filter isInstanceCall (snd (migrationSourceWs_Do e s migrateOp)) =
          [CallSetOperation inst migrateOp, CallMigrateSend inst (sourceSendArgs s)]"
    using assms
    by (simp add: migrationSourceWs_Do_def sourceFailed_def send_def Let_def
        split: option.splits)
  show "Snapshots (sourceSendArgs s)"
    using assms by (simp add: sourceSendArgs_def)
  show "\<not> Live (sourceSendArgs s)"
    using assms by (simp add: sourceSendArgs_def)
  show "fst (migrationSourceWs_Do e s migrateOp) = Returned None"
    if "MigrateSend e inst (sourceSendArgs s) = None"
    using assms that by (simp add: migrationSourceWs_Do_def Let_def)
qed

theorem source_do_round_trip_witness:
  "\<exists>args. filter isInstanceCall (snd (migrationSourceWs_Do ex_env_ok ex_source 7)) =
       [CallSetOperation ex_inst 7, CallMigrateSend ex_inst args]
     \<and> Snapshots args \<and> \<not> Live args
     \<and> fst (migrationSourceWs_Do ex_env_ok ex_source 7) = Returned None"
proof -
  have h1: "instance' (migFields ex_source) = Some ex_inst"
    by (simp add: ex_defs)
  have h2: "\<not> live (migFields ex_source)"
    by (simp add: ex_defs)
  have h3: "\<not> instanceOnly (migFields ex_source)"
    by (simp add: ex_defs)
  have h4: "select_allConnected ex_env_ok (allConnected ex_source) 10000 = Connected 3"
    by (simp add: ex_defs select_allConnected_def)
  have ok: "MigrateSend ex_env_ok ex_inst a = None" for a
    by (simp add: ex_defs)
  from source_do_round_trip [OF h1 h2 h3 h4, of 7] ok show ?thesis
    by auto
qed

section \<open>The sink session\<close>

text \<open>
  Claim C3. In pull mode the sink \<^verbatim>\<open>Do\<close> dials with the control secret, then with the
  filesystem secret, then, only when the session is live and the instance is a container,
  with the live-state secret. The first dial that fails ends \<^verbatim>\<open>Do\<close> with that error
  wrapped with the name of its channel: no further dial is made and the transfer is not
  started. After a failed filesystem or live-state dial a message with
  \<open>success = false\<close> and the wrapped error goes out on the control channel, and then the
  channels are closed and \<^verbatim>\<open>Do\<close> returns; after a failed control dial \<^verbatim>\<open>Do\<close> returns at
  once, and nothing is sent. The whole trace of each failing run is given.
\<close>

theorem sink_pull_dial_order:
  assumes "\<not> push c" and "instance' (src c) = Some inst"
  shows "(connectWithSecret e (controlSecret (src c)) = Inl err \<longrightarrow>
           fst (migrationSink_Do e c instOp) =
             Returned (Some (WrapError ''Failed connecting control sink socket: '' err)) \<and>
           filter isChannelEvent (fst (snd (migrationSink_Do e c instOp))) =
             [Dial (controlSecret (src c))] \<and>
           fst (snd (migrationSink_Do e c instOp)) =
             [LogInfo ''Waiting for migration channel connections on target'',
              Dial (controlSecret (src c))] \<and>
           filter isInstanceCall (fst (snd (migrationSink_Do e c instOp))) = [])
       \<and> (connectWithSecret e (controlSecret (src c)) = Inr cc \<and>
          connectWithSecret e (fsSecret (src c)) = Inl err \<longrightarrow>
           fst (migrationSink_Do e c instOp) =
             Returned (Some (WrapError ''Failed connecting filesystem sink socket: '' err)) \<and>
           filter isChannelEvent (fst (snd (migrationSink_Do e c instOp))) =
             [Dial (controlSecret (src c)), Dial (fsSecret (src c)),
              CallProtoSend cc \<lparr>Success = Some False,
                Message = Some (''Failed connecting filesystem sink socket: '' @ Error err)\<rparr>] \<and>
           fst (snd (migrationSink_Do e c instOp)) =
             [LogInfo ''Waiting for migration channel connections on target'',
              Dial (controlSecret (src c)), Dial (fsSecret (src c)),
              CallProtoSend cc \<lparr>Success = Some False,
                Message = Some (''Failed connecting filesystem sink socket: '' @ Error err)\<rparr>,
              CloseConn cc] @ close_conn (criuConn (src c)) \<and>
           filter isInstanceCall (fst (snd (migrationSink_Do e c instOp))) = [])
       \<and> (connectWithSecret e (controlSecret (src c)) = Inr cc \<and>
          connectWithSecret e (fsSecret (src c)) = Inr fc \<and>
          live (src c) \<and> InstType inst = Container \<and>
          connectWithSecret e (criuSecret (src c)) = Inl err \<longrightarrow>
           fst (migrationSink_Do e c instOp) =
             Returned (Some (WrapError ''Failed connecting CRIU sink socket: '' err)) \<and>
           filter isChannelEvent (fst (snd (migrationSink_Do e c instOp))) =
             [Dial (controlSecret (src c)), Dial (fsSecret (src c)), Dial (criuSecret (src c)),
              CallProtoSend cc \<lparr>Success = Some False,
                Message = Some (''Failed connecting CRIU sink socket: '' @ Error err)\<rparr>] \<and>
           fst (snd (migrationSink_Do e c instOp)) =
             [LogInfo ''Waiting for migration channel connections on target'',
              Dial (controlSecret (src c)), Dial (fsSecret (src c)), Dial (criuSecret (src c)),
              CallProtoSend cc \<lparr>Success = Some False,
                Message = Some (''Failed connecting CRIU sink socket: '' @ Error err)\<rparr>,
              CloseConn cc, CloseConn fc] \<and>
           filter isInstanceCall (fst (snd (migrationSink_Do e c instOp))) = [])
       \<and> (connectWithSecret e (controlSecret (src c)) = Inr cc \<and>
          connectWithSecret e (fsSecret (src c)) = Inr fc \<and>
          live (src c) \<and> InstType inst = Container \<and>
          connectWithSecret e (criuSecret (src c)) = Inr lc \<longrightarrow>
           filter isChannelEvent (fst (snd (migrationSink_Do e c instOp))) =
             [Dial (controlSecret (src c)), Dial (fsSecret (src c)), Dial (criuSecret (src c))])
       \<and> (connectWithSecret e (controlSecret (src c)) = Inr cc \<and>
          connectWithSecret e (fsSecret (src c)) = Inr fc \<and>
          \<not> (live (src c) \<and> InstType inst = Container) \<longrightarrow>
           filter isChannelEvent (fst (snd (migrationSink_Do e c instOp))) =
             [Dial (controlSecret (src c)), Dial (fsSecret (src c))])"
  using assms
  by (auto simp add: migrationSink_Do_def sinkPull_def sendControl_def disconnect_def
        close_conn_def Let_def case_prod_beta split: option.splits)

theorem sink_pull_dial_order_witness:
  "filter isChannelEvent (fst (snd (migrationSink_Do ex_env_no_dial ex_sink_pull 9))) =
     [Dial ''c'']
   \<and> fst (migrationSink_Do ex_env_no_dial ex_sink_pull 9) =
     Returned (Some (WrapError ''Failed connecting control sink socket: ''
                       (ErrorString ''bad handshake'')))
   \<and> fst (snd (migrationSink_Do ex_env_no_dial ex_sink_pull 9)) =
     [LogInfo ''Waiting for migration channel connections on target'', Dial ''c'']
   \<and> filter isChannelEvent (fst (snd (migrationSink_Do ex_env_control_only ex_sink_pull 9))) =
     [Dial ''c'', Dial ''f'',
      CallProtoSend 1 \<lparr>Success = Some False,
        Message = Some ''Failed connecting filesystem sink socket: bad handshake''\<rparr>]
   \<and> fst (snd (migrationSink_Do ex_env_control_only ex_sink_pull 9)) =
     [LogInfo ''Waiting for migration channel connections on target'', Dial ''c'', Dial ''f'',
      CallProtoSend 1 \<lparr>Success = Some False,
        Message = Some ''Failed connecting filesystem sink socket: bad handshake''\<rparr>,
      CloseConn 1]
   \<and> filter isInstanceCall (fst (snd (migrationSink_Do ex_env_control_only ex_sink_pull 9))) = []
   \<and> fst (snd (migrationSink_Do ex_env_no_criu_dial ex_sink_pull 9)) =
     [LogInfo ''Waiting for migration channel connections on target'', Dial ''c'', Dial ''f'',
      Dial ''l'',
      CallProtoSend 1 \<lparr>Success = Some False,
        Message = Some ''Failed connecting CRIU sink socket: bad handshake''\<rparr>,
      CloseConn 1, CloseConn 2]
   \<and> filter isChannelEvent (fst (snd (migrationSink_Do ex_env_no_criu_dial ex_sink_pull 9))) =
     [Dial ''c'', Dial ''f'', Dial ''l'',
      CallProtoSend 1 \<lparr>Success = Some False,
        Message = Some ''Failed connecting CRIU sink socket: bad handshake''\<rparr>]
   \<and> filter isChannelEvent (fst (snd (migrationSink_Do ex_env ex_sink_pull 9))) =
     [Dial ''c'', Dial ''f'', Dial ''l'']
   \<and> filter isChannelEvent (fst (snd (migrationSink_Do ex_env ex_sink_pull_cold 9))) =
     [Dial ''c'', Dial ''f'']"
proof -
  have p: "\<not> push ex_sink_pull" "instance' (src ex_sink_pull) = Some ex_inst"
    and q: "\<not> push ex_sink_pull_cold" "instance' (src ex_sink_pull_cold) = Some ex_inst"
    by (simp_all add: ex_defs)
  have secrets: "controlSecret (src ex_sink_pull) = ''c''" "fsSecret (src ex_sink_pull) = ''f''"
    "criuSecret (src ex_sink_pull) = ''l''" "live (src ex_sink_pull)"
    "controlSecret (src ex_sink_pull_cold) = ''c''" "fsSecret (src ex_sink_pull_cold) = ''f''"
    "\<not> live (src ex_sink_pull_cold)" "InstType ex_inst = Container"
    "criuConn (src ex_sink_pull) = None"
    by (simp_all add: ex_defs)
  have dials:
    "connectWithSecret ex_env_no_dial ''c'' = Inl (ErrorString ''bad handshake'')"
    "connectWithSecret ex_env_control_only ''c'' = Inr 1"
    "connectWithSecret ex_env_control_only ''f'' = Inl (ErrorString ''bad handshake'')"
    "connectWithSecret ex_env_no_criu_dial ''c'' = Inr 1"
    "connectWithSecret ex_env_no_criu_dial ''f'' = Inr 2"
    "connectWithSecret ex_env_no_criu_dial ''l'' = Inl (ErrorString ''bad handshake'')"
    "connectWithSecret ex_env ''c'' = Inr 1"
    "connectWithSecret ex_env ''f'' = Inr 2"
    "connectWithSecret ex_env ''l'' = Inr 3"
    by (simp_all add: ex_defs)
  show ?thesis
    using
      sink_pull_dial_order [OF p, where e = ex_env_no_dial and instOp = 9
        and err = "ErrorString ''bad handshake''"]
      sink_pull_dial_order [OF p, where e = ex_env_control_only and instOp = 9
        and err = "ErrorString ''bad handshake''" and cc = 1]
      sink_pull_dial_order [OF p, where e = ex_env_no_criu_dial and instOp = 9
        and err = "ErrorString ''bad handshake''" and cc = 1 and fc = 2]
      sink_pull_dial_order [OF p, where e = ex_env and instOp = 9 and cc = 1 and fc = 2
        and lc = 3]
      sink_pull_dial_order [OF q, where e = ex_env and instOp = 9 and cc = 1 and fc = 2]
    by (simp add: secrets dials close_conn_def)
qed

text \<open>
  Claim C9. Once the channels of a sink session are ready (the signal has fired in push
  mode, the dials have succeeded in pull mode), \<^verbatim>\<open>Do\<close> calls \<^verbatim>\<open>MigrateReceive\<close>, once:
  the control send and receive functions, the live-state channel and the filesystem
  channel are those of \<open>dest\<close> in push mode and those of \<open>src\<close> (holding the dialled
  connections) in pull mode, \<open>Live\<close> is the liveness of \<open>dest\<close> in push mode and of
  \<open>src\<close> in pull mode, and the operation lock and the refresh flag are passed as they are.
\<close>

theorem sink_receive_args:
  assumes "instance' (src c) = Some inst"
    and "if push c then select_allConnected e (allConnected' c) 10000 = Connected t
         else connectWithSecret e (controlSecret (src c)) = Inr cc \<and>
              connectWithSecret e (fsSecret (src c)) = Inr fc \<and>
              (live (src c) \<and> InstType inst = Container \<longrightarrow>
                 connectWithSecret e (criuSecret (src c)) = Inr lc)"
  shows "\<exists>a side. filter isInstanceCall (fst (snd (migrationSink_Do e c instOp))) =
                [CallMigrateReceive inst a]
           \<and> side = (if push c then dest (snd (snd (migrationSink_Do e c instOp)))
                     else src (snd (snd (migrationSink_Do e c instOp))))
           \<and> ControlSend a = side \<and> ControlReceive a = side
           \<and> LiveConn a = criuConn side \<and> DataConn a = fsConn side
           \<and> Live a = (if push c then live (dest c) else live (src c))
           \<and> InstanceOperation a = instOp \<and> Refresh a = refresh c
           \<and> (if push c then snd (snd (migrationSink_Do e c instOp)) = c
               else controlConn side = Some cc \<and> fsConn side = Some fc \<and>
                    (live (src c) \<and> InstType inst = Container \<longrightarrow> criuConn side = Some lc))"
  using assms
  by (auto simp add: migrationSink_Do_def sinkPull_def sinkReceiveArgs_def Let_def
        case_prod_beta split: if_splits)

theorem sink_receive_args_witness:
  "(\<exists>a. filter isInstanceCall (fst (snd (migrationSink_Do ex_env ex_sink_push 9))) =
          [CallMigrateReceive ex_inst a]
        \<and> ControlSend a = dest ex_sink_push \<and> ControlReceive a = dest ex_sink_push
        \<and> LiveConn a = Some 3 \<and> DataConn a = Some 2 \<and> Live a
        \<and> InstanceOperation a = 9 \<and> \<not> Refresh a)
   \<and> (\<exists>a. filter isInstanceCall (fst (snd (migrationSink_Do ex_env ex_sink_pull 9))) =
          [CallMigrateReceive ex_inst a]
        \<and> controlConn (ControlSend a) = Some 1 \<and> controlConn (ControlReceive a) = Some 1
        \<and> LiveConn a = Some 3 \<and> DataConn a = Some 2 \<and> Live a
        \<and> InstanceOperation a = 9 \<and> Refresh a)"
proof -
  have i: "instance' (src ex_sink_push) = Some ex_inst"
    and j: "instance' (src ex_sink_pull) = Some ex_inst"
    by (simp_all add: ex_defs)
  have r: "if push ex_sink_push
           then select_allConnected ex_env (allConnected' ex_sink_push) 10000 = Connected 3
           else connectWithSecret ex_env (controlSecret (src ex_sink_push)) = Inr 1 \<and>
                connectWithSecret ex_env (fsSecret (src ex_sink_push)) = Inr 2 \<and>
                (live (src ex_sink_push) \<and> InstType ex_inst = Container \<longrightarrow>
                   connectWithSecret ex_env (criuSecret (src ex_sink_push)) = Inr 3)"
    by (simp add: ex_defs select_allConnected_def)
  have d: "if push ex_sink_pull
           then select_allConnected ex_env (allConnected' ex_sink_pull) 10000 = Connected 3
           else connectWithSecret ex_env (controlSecret (src ex_sink_pull)) = Inr 1 \<and>
                connectWithSecret ex_env (fsSecret (src ex_sink_pull)) = Inr 2 \<and>
                (live (src ex_sink_pull) \<and> InstType ex_inst = Container \<longrightarrow>
                   connectWithSecret ex_env (criuSecret (src ex_sink_pull)) = Inr 3)"
    by (simp add: ex_defs)
  have facts: "push ex_sink_push" "\<not> push ex_sink_pull" "live (dest ex_sink_push)"
    "live (src ex_sink_pull)" "\<not> refresh ex_sink_push" "refresh ex_sink_pull"
    "criuConn (dest ex_sink_push) = Some 3" "fsConn (dest ex_sink_push) = Some 2"
    "InstType ex_inst = Container"
    by (simp_all add: ex_defs)
  from sink_receive_args [OF i r, of 9] sink_receive_args [OF j d, of 9] facts
  show ?thesis
    by (simp split: if_splits) metis
qed

section \<open>Construction\<close>

text \<open>
  Claim C7. In pull mode the sink constructor returns the error "Missing control secret"
  when the mapping has no control secret and "Missing fs secret" when it has no
  filesystem secret, and no session. The live-state secret may be absent: a request with
  the two other secrets, no live-state secret and no liveness is built, not live. A
  session that is built is live exactly when the live-state secret is present or liveness
  was requested.
\<close>

theorem sink_pull_secrets:
  assumes "\<not> args_Push args"
  shows "(args_Secrets args ''control'' = None \<longrightarrow>
            newMigrationSink e args = (Inl (ErrorString ''Missing control secret''), []))
       \<and> (args_Secrets args ''control'' \<noteq> None \<and> args_Secrets args ''fs'' = None \<longrightarrow>
            newMigrationSink e args = (Inl (ErrorString ''Missing fs secret''), []))
       \<and> (\<forall>sink. fst (newMigrationSink e args) = Inr sink \<longrightarrow>
            live (src sink) = (args_Secrets args ''criu'' \<noteq> None \<or> args_Live args))
       \<and> (args_Secrets args ''control'' \<noteq> None \<and> args_Secrets args ''fs'' \<noteq> None \<and>
          args_Secrets args ''criu'' = None \<and> \<not> args_Live args \<longrightarrow>
            (\<exists>sink. fst (newMigrationSink e args) = Inr sink \<and> \<not> live (src sink)))"
  using assms
  by (auto simp add: newMigrationSink_def newMigrationSink_pull_def Let_def zeroFields_def
      split: option.splits if_splits)

theorem sink_pull_secrets_witness:
  "newMigrationSink ex_env ex_args_pull_no_secrets =
     (Inl (ErrorString ''Missing control secret''), [])
   \<and> newMigrationSink ex_env ex_args_pull_no_fs = (Inl (ErrorString ''Missing fs secret''), [])
   \<and> (\<exists>sink. fst (newMigrationSink ex_env ex_args_pull_cold) = Inr sink \<and> \<not> live (src sink))
   \<and> (\<exists>sink. fst (newMigrationSink ex_env_criu ex_args_pull) = Inr sink \<and> live (src sink))"
proof -
  have pull: "\<not> args_Push ex_args_pull_no_secrets" "\<not> args_Push ex_args_pull_no_fs"
    "\<not> args_Push ex_args_pull_cold" "\<not> args_Push ex_args_pull"
    by (simp_all add: ex_defs)
  have secrets:
    "args_Secrets ex_args_pull_no_secrets ''control'' = None"
    "args_Secrets ex_args_pull_no_fs ''control'' = Some ''c''"
    "args_Secrets ex_args_pull_no_fs ''fs'' = None"
    "args_Secrets ex_args_pull_cold ''control'' = Some ''c''"
    "args_Secrets ex_args_pull_cold ''fs'' = Some ''f''"
    "args_Secrets ex_args_pull_cold ''criu'' = None"
    "\<not> args_Live ex_args_pull_cold"
    "args_Live ex_args_pull"
    by (simp_all add: ex_defs)
  have built: "\<exists>sink. fst (newMigrationSink ex_env_criu ex_args_pull) = Inr sink"
    by (simp add: ex_defs newMigrationSink_def newMigrationSink_pull_def Let_def)
  from sink_pull_secrets [OF pull(1), of ex_env] sink_pull_secrets [OF pull(2), of ex_env]
    sink_pull_secrets [OF pull(3), of ex_env] sink_pull_secrets [OF pull(4), of ex_env_criu]
    secrets built
  show ?thesis
    by auto
qed







section \<open>Closing the channels\<close>

text \<open>
  Claim C5, as amended. Once the wait for the connections has succeeded, the source
  \<^verbatim>\<open>Do\<close> closes every channel of its session before it returns, and so does the sink
  \<^verbatim>\<open>Do\<close> in push mode for the channels of \<open>dest\<close>, whatever the transfer gives. In pull
  mode, once the control dial has succeeded, every channel that \<open>src\<close> holds at the return
  is closed, also when a later dial fails; when the control dial fails, \<^verbatim>\<open>Do\<close> returns
  with no control channel and the two others as they were.
\<close>

theorem do_closes_owned_channels:
  "(instance' (migFields s) = Some inst \<and>
    select_allConnected e (allConnected s) 10000 = Connected t \<longrightarrow>
      (\<forall>x \<in> owned (migFields s). CloseConn x \<in> set (snd (migrationSourceWs_Do e s migrateOp))))
 \<and> (instance' (src c) = Some inst' \<and> push c \<and>
    select_allConnected e (allConnected' c) 10000 = Connected t' \<longrightarrow>
      (\<forall>x \<in> owned (dest c). CloseConn x \<in> set (fst (snd (migrationSink_Do e c instOp)))))
 \<and> (instance' (src c) = Some inst' \<and> \<not> push c \<and>
    connectWithSecret e (controlSecret (src c)) = Inr cc \<longrightarrow>
      (\<forall>x \<in> owned (src (snd (snd (migrationSink_Do e c instOp)))).
          CloseConn x \<in> set (fst (snd (migrationSink_Do e c instOp)))))
 \<and> (instance' (src c) = Some inst' \<and> \<not> push c \<and>
    connectWithSecret e (controlSecret (src c)) = Inl err \<longrightarrow>
      controlConn (src (snd (snd (migrationSink_Do e c instOp)))) = None \<and>
      fsConn (src (snd (snd (migrationSink_Do e c instOp)))) = fsConn (src c) \<and>
      criuConn (src (snd (snd (migrationSink_Do e c instOp)))) = criuConn (src c))"
  by (auto simp add: migrationSourceWs_Do_def migrationSink_Do_def sinkPull_def Let_def
        owned_closed case_prod_beta
      split: option.splits sum.splits)

theorem do_closes_owned_channels_witness:
  "CloseConn 1 \<in> set (snd (migrationSourceWs_Do ex_env ex_source 7))
   \<and> CloseConn 2 \<in> set (snd (migrationSourceWs_Do ex_env ex_source 7))
   \<and> CloseConn 3 \<in> set (fst (snd (migrationSink_Do ex_env ex_sink_push 9)))
   \<and> controlConn (src (snd (snd (migrationSink_Do ex_env_control_only ex_sink_pull 9)))) = Some 1
   \<and> CloseConn 1 \<in> set (fst (snd (migrationSink_Do ex_env_control_only ex_sink_pull 9)))
   \<and> controlConn (src (snd (snd (migrationSink_Do ex_env_no_dial ex_sink_pull 9)))) = None"
proof -
  have a: "instance' (migFields ex_source) = Some ex_inst"
    "select_allConnected ex_env (allConnected ex_source) 10000 = Connected 3"
    "1 \<in> owned (migFields ex_source)" "2 \<in> owned (migFields ex_source)"
    by (simp_all add: ex_defs select_allConnected_def owned_def)
  have b: "instance' (src ex_sink_push) = Some ex_inst" "push ex_sink_push"
    "select_allConnected ex_env (allConnected' ex_sink_push) 10000 = Connected 3"
    "3 \<in> owned (dest ex_sink_push)"
    by (simp_all add: ex_defs select_allConnected_def owned_def zeroFields_def)
  have c: "instance' (src ex_sink_pull) = Some ex_inst" "\<not> push ex_sink_pull"
    "connectWithSecret ex_env_control_only (controlSecret (src ex_sink_pull)) = Inr 1"
    "connectWithSecret ex_env_no_dial (controlSecret (src ex_sink_pull)) =
       Inl (ErrorString ''bad handshake'')"
    by (simp_all add: ex_defs)
  have d: "controlConn (src (snd (snd (migrationSink_Do ex_env_control_only ex_sink_pull 9)))) =
             Some 1"
    by (simp add: ex_defs migrationSink_Do_def sinkPull_def Let_def)
  then have o: "1 \<in> owned (src (snd (snd (migrationSink_Do ex_env_control_only ex_sink_pull 9))))"
    by (simp add: owned_def)
  from do_closes_owned_channels
         [where s = ex_source and inst = ex_inst and e = ex_env and t = 3 and migrateOp = 7
            and c = ex_sink_push and inst' = ex_inst and t' = 3 and instOp = 9]
       do_closes_owned_channels
         [where c = ex_sink_pull and inst' = ex_inst and e = ex_env_control_only and cc = 1
            and instOp = 9]
       do_closes_owned_channels
         [where c = ex_sink_pull and inst' = ex_inst and e = ex_env_no_dial and instOp = 9
            and err = "ErrorString ''bad handshake''"]
       a b c d o
  show ?thesis
    by simp
qed

text \<open>
  Claim C5 as it is written includes the timeout. There \<^verbatim>\<open>Do\<close> returns before the
  deferred \<^verbatim>\<open>disconnect\<close> is set up: a source session whose control channel has connected
  and whose filesystem channel has not keeps the control channel open, and so does a
  push-mode sink.
\<close>

theorem do_timeout_leaves_channel_open:
  "controlConn (migFields ex_source_partial) = Some 1
   \<and> fst (migrationSourceWs_Do ex_env_never ex_source_partial 7) =
       Returned (Some (ErrorString ''Timed out waiting for migration connections''))
   \<and> CloseConn 1 \<notin> set (snd (migrationSourceWs_Do ex_env_never ex_source_partial 7))
   \<and> controlConn (dest ex_sink_push) = Some 1
   \<and> fst (migrationSink_Do ex_env_never ex_sink_push 9) =
       Returned (Some (ErrorString ''Timed out waiting for migration connections''))
   \<and> CloseConn 1 \<notin> set (fst (snd (migrationSink_Do ex_env_never ex_sink_push 9)))"
  by (simp add: ex_defs migrationSourceWs_Do_def migrationSink_Do_def select_allConnected_def
        zeroFields_def)

end
